theory Spec2Isabelle
  imports Main
begin

section \<open>Authentication + JWT server: a shallow embedding\<close>

text \<open>
  The development follows module 5 of the repository: the Express server with the routes
  \<^verbatim>\<open>POST /api/register\<close>, \<^verbatim>\<open>POST /api/login\<close>, \<^verbatim>\<open>GET /api/profile\<close> and
  \<^verbatim>\<open>GET /api/users\<close>, the middleware \<^verbatim>\<open>verifyToken\<close> of \<^verbatim>\<open>auth.js\<close> and the
  \<^verbatim>\<open>users\<close> table of \<^verbatim>\<open>database.js\<close>.

  A handler is a function from the database and the request to the new database, the
  response (status and JSON body) and the list of effects it performed, in order
  (console messages are recorded without their leading check mark). The
  libraries the handlers call (bcrypt, jsonwebtoken, \<^verbatim>\<open>Date\<close>) are parameters of the
  handlers; the random salt of \<^verbatim>\<open>bcrypt.hash\<close> and the clock are explicit arguments.
  The middleware installed for every route (CORS, the JSON body parser, the request
  logger) is outside the model: a handler starts from the parsed body or the header.

  A string is the list of its UTF-16 code units, which is what \<^verbatim>\<open>password.length\<close>
  counts; the type \<open>string\<close> has the code units below 256.
\<close>

subsection \<open>JSON values and responses\<close>

datatype json =
    JNull
  | JBool bool
  | JNum int
  | JStr string
  | JArr "json list"
  | JObj "(string \<times> json) list"

text \<open>Every property name that occurs in a JSON value, at any depth.\<close>

fun json_keys :: "json \<Rightarrow> string list" where
  "json_keys (JArr xs) = concat (map json_keys xs)"
| "json_keys (JObj kvs) = concat (map (\<lambda>(k, v). k # json_keys v) kvs)"
| "json_keys _ = []"

text \<open>The property names of an object itself, in order; a value that is no object has none.\<close>

fun own_keys :: "json \<Rightarrow> string list" where
  "own_keys (JObj kvs) = map fst kvs"
| "own_keys _ = []"

text \<open>Property access \<^verbatim>\<open>obj.k\<close>: \<open>None\<close> is JavaScript's \<^verbatim>\<open>undefined\<close>.\<close>

fun field :: "string \<Rightarrow> json \<Rightarrow> json option" where
  "field k (JObj kvs) = map_of kvs k"
| "field k _ = None"

record response =
  status :: nat
  body :: json

subsection \<open>The users table\<close>

text \<open>
  \<^verbatim>\<open>CREATE TABLE users (id INTEGER PRIMARY KEY AUTOINCREMENT, username TEXT NOT NULL UNIQUE,
  email TEXT NOT NULL UNIQUE, password_hash TEXT NOT NULL, created_at DATETIME DEFAULT
  CURRENT_TIMESTAMP)\<close>. The column \<^verbatim>\<open>id\<close> is called \<open>id_col\<close> here; it is the
  rowid of SQLite, a signed 64-bit integer.
\<close>

record user_row =
  id_col :: int
  username :: string
  email :: string
  password_hash :: string
  created_at :: string

text \<open>
  The database: the rows of \<^verbatim>\<open>users\<close> in rowid order, and the largest rowid the table
  ever held (the table's entry in \<^verbatim>\<open>sqlite_sequence\<close>, kept by \<^verbatim>\<open>AUTOINCREMENT\<close>).
\<close>

record db =
  rows :: "user_row list"
  seq :: int

text \<open>
  An integer of the database reaches JavaScript as a number, that is as the nearest
  double, ties to the even significand: integers up to \<open>2 ^ 53\<close> in size are kept,
  larger ones are rounded to a multiple of \<open>quantum\<close>, the distance between the
  doubles of that size.
\<close>

function quantum :: "nat \<Rightarrow> nat" where
  "quantum n = (if n < 2 ^ 53 then 1 else 2 * quantum (n div 2))"
  by pat_completeness auto
termination
  by (relation "measure (\<lambda>n. n)") auto

declare quantum.simps [simp del]

definition nearest_double :: "nat \<Rightarrow> nat" where
  "nearest_double n =
     (let q = quantum n; k = n div q; r = n mod q
      in if 2 * r < q then k * q
         else if q < 2 * r then (k + 1) * q
         else if even k then k * q
         else (k + 1) * q)"

definition js_number :: "int \<Rightarrow> int" where
  "js_number i =
     (if i < 0 then - int (nearest_double (nat (- i))) else int (nearest_double (nat i)))"

text \<open>\<^verbatim>\<open>SELECT * FROM users WHERE username = ? OR email = ?\<close> with \<^verbatim>\<open>.get(username, email)\<close>:
  the first matching row, or \<^verbatim>\<open>undefined\<close>.\<close>

definition get_by_username_or_email :: "db \<Rightarrow> string \<Rightarrow> string \<Rightarrow> user_row option" where
  "get_by_username_or_email d u e =
     find (\<lambda>r. user_row.username r = u \<or> user_row.email r = e) (rows d)"

text \<open>\<^verbatim>\<open>SELECT * FROM users WHERE username = ?\<close> with \<^verbatim>\<open>.get(username)\<close>.\<close>

definition get_by_username :: "db \<Rightarrow> string \<Rightarrow> user_row option" where
  "get_by_username d u = find (\<lambda>r. user_row.username r = u) (rows d)"

text \<open>\<^verbatim>\<open>SELECT id, username, email, created_at FROM users WHERE id = ?\<close> with \<^verbatim>\<open>.get(id)\<close>
  and \<^verbatim>\<open>SELECT id, username, email, created_at FROM users\<close> with \<^verbatim>\<open>.all()\<close>: the result
  rows are objects with the selected columns only.\<close>

definition selected_columns :: "user_row \<Rightarrow> json" where
  "selected_columns r =
     JObj [(''id'', JNum (js_number (id_col r))),
           (''username'', JStr (user_row.username r)),
           (''email'', JStr (user_row.email r)),
           (''created_at'', JStr (created_at r))]"

definition get_by_id :: "db \<Rightarrow> int \<Rightarrow> json option" where
  "get_by_id d i = map_option selected_columns (find (\<lambda>r. id_col r = i) (rows d))"

definition all_users :: "db \<Rightarrow> json list" where
  "all_users d = map selected_columns (rows d)"

text \<open>
  \<^verbatim>\<open>INSERT INTO users (username, email, password_hash) VALUES (?, ?, ?)\<close> with \<^verbatim>\<open>.run\<close>.
  The new rowid is one more than the largest rowid the table ever held. The statement
  throws (the error carries SQLite's message) when that rowid would pass the largest
  64-bit integer (\<^verbatim>\<open>SQLITE_FULL\<close>), which is found before the constraints are checked,
  and when a \<^verbatim>\<open>UNIQUE\<close> constraint fails, the one on \<^verbatim>\<open>email\<close> being checked before
  the one on \<^verbatim>\<open>username\<close>. Otherwise the new row gets the rowid and the current
  timestamp, and the rowid is returned (\<^verbatim>\<open>lastInsertRowid\<close>, before it becomes a number
  of JavaScript).
\<close>

definition max_rowid :: int where
  "max_rowid = 9223372036854775807"

definition next_rowid :: "db \<Rightarrow> int" where
  "next_rowid d = fold max (map id_col (rows d)) (seq d) + 1"

definition insert_user :: "db \<Rightarrow> string \<Rightarrow> string \<Rightarrow> string \<Rightarrow> string \<Rightarrow> string + (db \<times> int)" where
  "insert_user d u e h current_timestamp =
     (if max_rowid < next_rowid d
        then Inl ''database or disk is full''
      else if list_ex (\<lambda>r. user_row.email r = e) (rows d)
        then Inl ''UNIQUE constraint failed: users.email''
      else if list_ex (\<lambda>r. user_row.username r = u) (rows d)
        then Inl ''UNIQUE constraint failed: users.username''
      else
        let i = next_rowid d;
            r = \<lparr>id_col = i, username = u, email = e, password_hash = h,
                 created_at = current_timestamp\<rparr>
        in Inr (\<lparr>rows = rows d @ [r], seq = i\<rparr>, i))"

subsection \<open>Effects and results of a handler\<close>

datatype effect =
    ConsoleLog string
  | ConsoleError string
  | SqlGet string "json list"
  | SqlAll string
  | SqlRun string "json list"
  | BcryptHash string nat
  | BcryptCompare json string
  | JwtSign
  | JwtVerify string

record result =
  store :: db
  reply :: response
  effects :: "effect list"

subsection \<open>POST /api/register\<close>

definition register_required :: response where
  "register_required =
     \<lparr>status = 400,
      body = JObj [(''error'', JStr ''Validation failed''),
                   (''message'', JStr ''Username, email, and password are required'')]\<rparr>"

definition register_too_short :: response where
  "register_too_short =
     \<lparr>status = 400,
      body = JObj [(''error'', JStr ''Validation failed''),
                   (''message'', JStr ''Password must be at least 6 characters long'')]\<rparr>"

definition register_exists :: response where
  "register_exists =
     \<lparr>status = 400,
      body = JObj [(''error'', JStr ''User already exists''),
                   (''message'', JStr ''Username or email is already taken'')]\<rparr>"

definition register_failed :: "string \<Rightarrow> response" where
  "register_failed msg =
     \<lparr>status = 500,
      body = JObj [(''error'', JStr ''Registration failed''), (''message'', JStr msg)]\<rparr>"

definition register_created :: "int \<Rightarrow> string \<Rightarrow> string \<Rightarrow> response" where
  "register_created i u e =
     \<lparr>status = 201,
      body = JObj [(''message'', JStr ''User registered successfully''),
                   (''user'', JObj [(''id'', JNum i), (''username'', JStr u), (''email'', JStr e)]),
                   (''nextStep'', JStr ''Login at /api/login to receive your token'')]\<rparr>"

definition sql_check_existing :: string where
  "sql_check_existing = ''SELECT * FROM users WHERE username = ? OR email = ?''"

definition sql_insert :: string where
  "sql_insert = ''INSERT INTO users (username, email, password_hash) VALUES (?, ?, ?)''"

text \<open>
  The three fields of the body are JSON strings or absent (\<open>None\<close>, JavaScript's
  \<^verbatim>\<open>undefined\<close>); \<^verbatim>\<open>!x\<close> holds of \<^verbatim>\<open>undefined\<close> and of the empty string.
  \<open>hash\<close> is \<^verbatim>\<open>bcrypt.hash\<close> (password, rounds and the salt it draws).
\<close>

fun register ::
  "(string \<Rightarrow> nat \<Rightarrow> string \<Rightarrow> string) \<Rightarrow> string \<Rightarrow> string \<Rightarrow> db \<Rightarrow>
     string option \<Rightarrow> string option \<Rightarrow> string option \<Rightarrow> result" where
  "register hash salt current_timestamp d (Some u) (Some e) (Some p) =
     (if u = [] \<or> e = [] \<or> p = [] then
        \<lparr>store = d, reply = register_required, effects = []\<rparr>
      else if length p < 6 then
        \<lparr>store = d, reply = register_too_short, effects = []\<rparr>
      else
        (case get_by_username_or_email d u e of
           Some existingUser \<Rightarrow>
             \<lparr>store = d, reply = register_exists, effects = [SqlGet sql_check_existing [JStr u, JStr e]]\<rparr>
         | None \<Rightarrow>
             let passwordHash = hash p 10 salt in
             (case insert_user d u e passwordHash current_timestamp of
                Inl msg \<Rightarrow>
                  \<lparr>store = d, reply = register_failed msg,
                   effects = [SqlGet sql_check_existing [JStr u, JStr e],
                              ConsoleLog ''Hashing password...'',
                              BcryptHash p 10,
                              SqlRun sql_insert [JStr u, JStr e, JStr passwordHash],
                              ConsoleError ''Registration error:'']\<rparr>
              | Inr (d', lastInsertRowid) \<Rightarrow>
                  \<lparr>store = d', reply = register_created (js_number lastInsertRowid) u e,
                   effects = [SqlGet sql_check_existing [JStr u, JStr e],
                              ConsoleLog ''Hashing password...'',
                              BcryptHash p 10,
                              SqlRun sql_insert [JStr u, JStr e, JStr passwordHash],
                              ConsoleLog ''User registered successfully'']\<rparr>)))"
| "register hash salt current_timestamp d _ _ _ =
     \<lparr>store = d, reply = register_required, effects = []\<rparr>"

subsection \<open>POST /api/login\<close>

definition JWT_SECRET :: string where
  "JWT_SECRET = ''your-secret-key-change-this-in-production''"

text \<open>The payload of a token, and the claims a verified token decodes to.\<close>

record payload =
  userId :: int
  username :: string
  email :: string

record claims = payload +
  iat :: int
  exp :: int

definition login_required :: response where
  "login_required =
     \<lparr>status = 400,
      body = JObj [(''error'', JStr ''Validation failed''),
                   (''message'', JStr ''Username and password are required'')]\<rparr>"

definition login_unknown_user :: response where
  "login_unknown_user =
     \<lparr>status = 401,
      body = JObj [(''error'', JStr ''Authentication failed''),
                   (''message'', JStr ''Invalid username or password'')]\<rparr>"

definition login_wrong_password :: response where
  "login_wrong_password =
     \<lparr>status = 401,
      body = JObj [(''error'', JStr ''Authentication failed''),
                   (''message'', JStr ''Invalid username or password'')]\<rparr>"

definition login_ok :: "string \<Rightarrow> user_row \<Rightarrow> response" where
  "login_ok token user =
     \<lparr>status = 200,
      body = JObj [(''message'', JStr ''Login successful''),
                   (''token'', JStr token),
                   (''expiresIn'', JStr ''24h''),
                   (''user'', JObj [(''id'', JNum (js_number (id_col user))),
                                    (''username'', JStr (user_row.username user)),
                                    (''email'', JStr (user_row.email user))]),
                   (''howToUse'',
                    JStr ''Include this token in the Authorization header: Bearer <token>'')]\<rparr>"

definition login_failed :: "string \<Rightarrow> response" where
  "login_failed msg =
     \<lparr>status = 500,
      body = JObj [(''error'', JStr ''Login failed''), (''message'', JStr msg)]\<rparr>"

definition sql_find_user :: string where
  "sql_find_user = ''SELECT * FROM users WHERE username = ?''"

text \<open>The option \<^verbatim>\<open>expiresIn: '24h'\<close>, in seconds.\<close>

definition expiresIn_24h :: int where
  "expiresIn_24h = 24 * 60 * 60"

text \<open>
  The two fields of the body are JSON values or absent (\<open>None\<close>, JavaScript's
  \<^verbatim>\<open>undefined\<close>). \<^verbatim>\<open>!x\<close> holds of \<^verbatim>\<open>undefined\<close>, \<^verbatim>\<open>null\<close>, \<^verbatim>\<open>false\<close>, \<^verbatim>\<open>0\<close> and the
  empty string, and of no other value (a number with a fraction, which \<open>JNum\<close> does
  not have, is treated by the handler as every other number that is not zero).
\<close>

fun truthy :: "json \<Rightarrow> bool" where
  "truthy JNull = False"
| "truthy (JBool b) = b"
| "truthy (JNum n) = (n \<noteq> 0)"
| "truthy (JStr s) = (s \<noteq> [])"
| "truthy (JArr xs) = True"
| "truthy (JObj kvs) = True"

text \<open>
  The lookup \<^verbatim>\<open>.get(username)\<close> of the login handler. A string is compared with the
  column. What becomes of a value that is not a string is decided by better-sqlite3 and
  SQLite, whose code is not among the sources: \<open>bind\<close> stands for it and gives an error
  that the binder throws (\<open>Inl\<close>, with its message), no value that equals a text
  (\<open>Inr None\<close>, as for \<^verbatim>\<open>NULL\<close>), or the text that the value is compared as in a column
  of type \<^verbatim>\<open>TEXT\<close> (\<open>Inr (Some t)\<close>, as for a number).
\<close>

fun find_user ::
  "(json \<Rightarrow> string + string option) \<Rightarrow> db \<Rightarrow> json \<Rightarrow> string + user_row option" where
  "find_user bind d (JStr u) = Inr (get_by_username d u)"
| "find_user bind d x =
     (case bind x of
        Inl msg \<Rightarrow> Inl msg
      | Inr None \<Rightarrow> Inr None
      | Inr (Some t) \<Rightarrow> Inr (get_by_username d t))"

text \<open>
  \<open>compare\<close> is \<^verbatim>\<open>bcrypt.compare\<close> on the password of the body and the stored digest:
  it answers true or false (\<open>Inr\<close>) or throws (\<open>Inl\<close>, with the message of the error).
  \<open>sign\<close> is \<^verbatim>\<open>jwt.sign\<close> (payload, secret, lifetime in seconds, and the clock it
  reads, in seconds). An error thrown by the lookup or by \<^verbatim>\<open>bcrypt.compare\<close> is caught
  by the handler, which answers 500 with the message of the error.
\<close>

fun login ::
  "(json \<Rightarrow> string \<Rightarrow> string + bool) \<Rightarrow> (json \<Rightarrow> string + string option) \<Rightarrow>
     (payload \<Rightarrow> string \<Rightarrow> int \<Rightarrow> int \<Rightarrow> string) \<Rightarrow> int \<Rightarrow> db \<Rightarrow>
     json option \<Rightarrow> json option \<Rightarrow> result" where
  "login compare bind sign now d (Some u) (Some p) =
     (if \<not> truthy u \<or> \<not> truthy p then
        \<lparr>store = d, reply = login_required, effects = []\<rparr>
      else
        (case find_user bind d u of
           Inl msg \<Rightarrow>
             \<lparr>store = d, reply = login_failed msg,
              effects = [SqlGet sql_find_user [u], ConsoleError ''Login error:'']\<rparr>
         | Inr None \<Rightarrow>
             \<lparr>store = d, reply = login_unknown_user, effects = [SqlGet sql_find_user [u]]\<rparr>
         | Inr (Some user) \<Rightarrow>
             (case compare p (password_hash user) of
                Inl msg \<Rightarrow>
                  \<lparr>store = d, reply = login_failed msg,
                   effects = [SqlGet sql_find_user [u],
                              ConsoleLog ''Verifying password...'',
                              BcryptCompare p (password_hash user),
                              ConsoleError ''Login error:'']\<rparr>
              | Inr passwordMatch \<Rightarrow>
                  if \<not> passwordMatch then
                    \<lparr>store = d, reply = login_wrong_password,
                     effects = [SqlGet sql_find_user [u],
                                ConsoleLog ''Verifying password...'',
                                BcryptCompare p (password_hash user)]\<rparr>
                  else
                    let pl = \<lparr>userId = js_number (id_col user),
                              username = user_row.username user,
                              email = user_row.email user\<rparr>;
                        token = sign pl JWT_SECRET expiresIn_24h now
                    in \<lparr>store = d, reply = login_ok token user,
                        effects = [SqlGet sql_find_user [u],
                                   ConsoleLog ''Verifying password...'',
                                   BcryptCompare p (password_hash user),
                                   JwtSign,
                                   ConsoleLog ''Login successful, token generated'']\<rparr>)))"
| "login compare bind sign now d _ _ =
     \<lparr>store = d, reply = login_required, effects = []\<rparr>"

subsection \<open>The middleware verifyToken\<close>

text \<open>
  \<^verbatim>\<open>String.prototype.split\<close> with a separator of one character: the pieces between the
  occurrences of the separator, empty pieces included; the empty string has one piece.
\<close>

fun split :: "char \<Rightarrow> string \<Rightarrow> string list" where
  "split sep [] = [[]]"
| "split sep (c # cs) =
     (if c = sep then [] # split sep cs
      else (case split sep cs of [] \<Rightarrow> [[c]] | piece # pieces \<Rightarrow> (c # piece) # pieces))"

text \<open>Array access \<^verbatim>\<open>xs[i]\<close>: \<^verbatim>\<open>undefined\<close> beyond the end.\<close>

definition at_index :: "'a list \<Rightarrow> nat \<Rightarrow> 'a option" where
  "at_index xs i = (if i < length xs then Some (xs ! i) else None)"

definition no_token_provided :: response where
  "no_token_provided =
     \<lparr>status = 401,
      body = JObj [(''error'', JStr ''Access denied''),
                   (''message'', JStr ''No token provided. Please login first.'')]\<rparr>"

definition invalid_token_format :: response where
  "invalid_token_format =
     \<lparr>status = 401,
      body = JObj [(''error'', JStr ''Access denied''),
                   (''message'', JStr ''Invalid token format. Use: Bearer <token>'')]\<rparr>"

definition invalid_token :: response where
  "invalid_token =
     \<lparr>status = 401,
      body = JObj [(''error'', JStr ''Invalid token''),
                   (''message'', JStr ''Token is invalid or expired. Please login again.'')]\<rparr>"

text \<open>The middleware either calls \<^verbatim>\<open>next()\<close> with \<^verbatim>\<open>req.user\<close> set, or sends a response.\<close>

datatype guard =
    Next claims "effect list"
  | Rejected response "effect list"

text \<open>
  \<open>verify\<close> is \<^verbatim>\<open>jwt.verify\<close> (token, secret and the clock it reads, in seconds);
  \<open>None\<close> stands for any error it throws. \<open>authHeader\<close> is
  \<^verbatim>\<open>req.headers.authorization\<close>.
\<close>

definition verifyToken ::
  "(string \<Rightarrow> string \<Rightarrow> int \<Rightarrow> claims option) \<Rightarrow> int \<Rightarrow> string option \<Rightarrow> guard" where
  "verifyToken verify now authHeader =
     (case authHeader of
        None \<Rightarrow> Rejected no_token_provided []
      | Some h \<Rightarrow>
          if h = [] then Rejected no_token_provided []
          else
            (case at_index (split CHR '' '' h) 1 of
               None \<Rightarrow> Rejected invalid_token_format []
             | Some token \<Rightarrow>
                 if token = [] then Rejected invalid_token_format []
                 else
                   (case verify token JWT_SECRET now of
                      Some decoded \<Rightarrow> Next decoded [JwtVerify token]
                    | None \<Rightarrow>
                        Rejected invalid_token
                          [JwtVerify token, ConsoleError ''Token verification failed:''])))"

subsection \<open>GET /api/profile and GET /api/users\<close>

definition sql_profile :: string where
  "sql_profile = ''SELECT id, username, email, created_at FROM users WHERE id = ?''"

definition sql_users :: string where
  "sql_users = ''SELECT id, username, email, created_at FROM users''"

definition user_not_found :: response where
  "user_not_found = \<lparr>status = 404, body = JObj [(''error'', JStr ''User not found'')]\<rparr>"

definition profile_ok :: "(int \<Rightarrow> string) \<Rightarrow> claims \<Rightarrow> json \<Rightarrow> response" where
  "profile_ok toISOString req_user user =
     \<lparr>status = 200,
      body = JObj [(''message'', JStr ''Profile retrieved successfully''),
                   (''note'',
                    JStr ''This is a protected route - only accessible with a valid token''),
                   (''user'', user),
                   (''tokenInfo'',
                    JObj [(''userId'', JNum (userId req_user)),
                          (''username'', JStr (username req_user)),
                          (''tokenIssuedAt'', JStr (toISOString (iat req_user * 1000)))])]\<rparr>"

definition users_ok :: "claims \<Rightarrow> json list \<Rightarrow> response" where
  "users_ok req_user users =
     \<lparr>status = 200,
      body = JObj [(''message'', JStr ''All users retrieved (protected route)''),
                   (''requestedBy'', JStr (username req_user)),
                   (''count'', JNum (int (length users))),
                   (''users'', JArr users)]\<rparr>"

text \<open>
  A route \<^verbatim>\<open>app.get(path, verifyToken, handler)\<close>: the handler runs when the middleware
  called \<^verbatim>\<open>next()\<close>, and the middleware's response is the route's otherwise.
\<close>

definition guarded :: "db \<Rightarrow> guard \<Rightarrow> (claims \<Rightarrow> result) \<Rightarrow> result" where
  "guarded d g handler =
     (case g of
        Rejected r fx \<Rightarrow> \<lparr>store = d, reply = r, effects = fx\<rparr>
      | Next req_user fx \<Rightarrow>
          (let res = handler req_user in res\<lparr>effects := fx @ effects res\<rparr>))"

text \<open>\<open>toISOString\<close> is \<^verbatim>\<open>new Date(ms).toISOString()\<close>.\<close>

definition profile_handler :: "(int \<Rightarrow> string) \<Rightarrow> db \<Rightarrow> claims \<Rightarrow> result" where
  "profile_handler toISOString d req_user =
     (case get_by_id d (userId req_user) of
        None \<Rightarrow>
          \<lparr>store = d, reply = user_not_found,
           effects = [SqlGet sql_profile [JNum (userId req_user)]]\<rparr>
      | Some user \<Rightarrow>
          \<lparr>store = d, reply = profile_ok toISOString req_user user,
           effects = [SqlGet sql_profile [JNum (userId req_user)]]\<rparr>)"

definition users_handler :: "db \<Rightarrow> claims \<Rightarrow> result" where
  "users_handler d req_user =
     \<lparr>store = d, reply = users_ok req_user (all_users d), effects = [SqlAll sql_users]\<rparr>"

definition profile ::
  "(string \<Rightarrow> string \<Rightarrow> int \<Rightarrow> claims option) \<Rightarrow> (int \<Rightarrow> string) \<Rightarrow> int \<Rightarrow> db \<Rightarrow>
     string option \<Rightarrow> result" where
  "profile verify toISOString now d authHeader =
     guarded d (verifyToken verify now authHeader) (profile_handler toISOString d)"

definition users ::
  "(string \<Rightarrow> string \<Rightarrow> int \<Rightarrow> claims option) \<Rightarrow> int \<Rightarrow> db \<Rightarrow> string option \<Rightarrow> result" where
  "users verify now d authHeader =
     guarded d (verifyToken verify now authHeader) (users_handler d)"


subsection \<open>Token issuer and verifier\<close>

text \<open>
  Modelled from the spec: \<^verbatim>\<open>jwt.sign\<close> and \<^verbatim>\<open>jwt.verify\<close> belong to the package
  \<^verbatim>\<open>jsonwebtoken\<close>, whose code is not among the sources. The handlers above take them
  as parameters; what the specification says about them (section 4.3, Token Issuer /
  Verifier) is modelled in this subsection. The unpadded base64url coding of the segments
  is written out; the JSON text of the claims (\<open>serialize\<close>, \<open>parse\<close>) and the keyed
  hash (\<open>hmac\<close>) are parameters.
\<close>

definition base64url_alphabet :: string where
  "base64url_alphabet = ''ABCDEFGHIJKLMNOPQRSTUVWXYZabcdefghijklmnopqrstuvwxyz0123456789-_''"

text \<open>The character of a six-bit group; the coder below applies it to numbers below 64.\<close>

definition sextet_char :: "nat \<Rightarrow> char" where
  "sextet_char n = base64url_alphabet ! n"

fun index_of :: "'a \<Rightarrow> 'a list \<Rightarrow> nat option" where
  "index_of x [] = None"
| "index_of x (y # ys) = (if x = y then Some 0 else map_option Suc (index_of x ys))"

definition char_sextet :: "char \<Rightarrow> nat option" where
  "char_sextet c = index_of c base64url_alphabet"

definition byte :: "char \<Rightarrow> nat" where
  "byte c = of_char c"

text \<open>
  Modelled from the spec: the base64url coding of a segment, which the missing code of
  \<^verbatim>\<open>jsonwebtoken\<close> performs (the URL-safe alphabet, no padding). Three bytes give four
  characters; one or two bytes left over give two or three.
\<close>

fun base64url_encode :: "string \<Rightarrow> string" where
  "base64url_encode (a # b # c # rest) =
     sextet_char (byte a div 4) # sextet_char (byte a mod 4 * 16 + byte b div 16) #
     sextet_char (byte b mod 16 * 4 + byte c div 64) # sextet_char (byte c mod 64) #
     base64url_encode rest"
| "base64url_encode [a, b] =
     [sextet_char (byte a div 4), sextet_char (byte a mod 4 * 16 + byte b div 16),
      sextet_char (byte b mod 16 * 4)]"
| "base64url_encode [a] = [sextet_char (byte a div 4), sextet_char (byte a mod 4 * 16)]"
| "base64url_encode [] = []"

fun base64url_decode :: "string \<Rightarrow> string option" where
  "base64url_decode (p # q # r # s # rest) =
     (case (char_sextet p, char_sextet q, char_sextet r, char_sextet s, base64url_decode rest) of
        (Some i, Some j, Some k, Some l, Some bytes) \<Rightarrow>
          Some (char_of (i * 4 + j div 16) # char_of (j mod 16 * 16 + k div 4) #
                char_of (k mod 4 * 64 + l) # bytes)
      | _ \<Rightarrow> None)"
| "base64url_decode [p, q, r] =
     (case (char_sextet p, char_sextet q, char_sextet r) of
        (Some i, Some j, Some k) \<Rightarrow>
          Some [char_of (i * 4 + j div 16), char_of (j mod 16 * 16 + k div 4)]
      | _ \<Rightarrow> None)"
| "base64url_decode [p, q] =
     (case (char_sextet p, char_sextet q) of
        (Some i, Some j) \<Rightarrow> Some [char_of (i * 4 + j div 16)]
      | _ \<Rightarrow> None)"
| "base64url_decode [p] = None"
| "base64url_decode [] = Some []"

text \<open>Modelled from the spec: the header that the missing code of \<^verbatim>\<open>jwt.sign\<close>
  serializes, the algorithm identifier and the token type.\<close>

definition jwt_header :: string where
  \<open>jwt_header = ''{"alg":"HS256","typ":"JWT"}''\<close>

text \<open>Modelled from the spec: the failure modes of the verifier, and the claims of a
  token, which are the issuer's claims with the two timestamps added.\<close>

datatype token_error = Malformed | InvalidSignature | Expired

record 'c token_body =
  original :: 'c
  issued_at :: int
  expiry :: int

text \<open>
  Modelled from the spec: the body of \<^verbatim>\<open>jwt.sign\<close> is missing.
  \<^verbatim>\<open>issue(claims, secret, ttl) -> token\<close> serializes a header and the claims augmented with
  issued-at and computed expiry, both base64url-encoded and concatenated with a signature
  computed over the encoded header and claims using the secret; the output is three
  dot-separated segments. \<open>now\<close> is the clock at issuance.
\<close>

definition TokenIssue ::
  "('c token_body \<Rightarrow> string) \<Rightarrow> (string \<Rightarrow> string \<Rightarrow> string) \<Rightarrow> int \<Rightarrow>
     'c \<Rightarrow> string \<Rightarrow> int \<Rightarrow> string" where
  "TokenIssue serialize hmac now claims secret ttl =
     (let signing_input =
            base64url_encode jwt_header @ ''.'' @
            base64url_encode (serialize \<lparr>original = claims, issued_at = now, expiry = now + ttl\<rparr>)
      in signing_input @ ''.'' @ base64url_encode (hmac secret signing_input))"

text \<open>
  Modelled from the spec: the body of \<^verbatim>\<open>jwt.verify\<close> is missing.
  \<^verbatim>\<open>verify(token, secret)\<close>: (1) split into exactly three segments, fewer or more is
  \<open>Malformed\<close>; (2) recompute the signature over segments 1 and 2 using the secret, a
  mismatch is \<open>InvalidSignature\<close>; (3) decode the claims, and if the current time is at
  or after the embedded expiry the token is \<open>Expired\<close>; (4) otherwise return the decoded
  claims. Claims that do not decode are \<open>Malformed\<close>. \<open>now\<close> is the current time.
\<close>

definition TokenVerify ::
  "(string \<Rightarrow> 'c token_body option) \<Rightarrow> (string \<Rightarrow> string \<Rightarrow> string) \<Rightarrow> int \<Rightarrow>
     string \<Rightarrow> string \<Rightarrow> token_error + 'c token_body" where
  "TokenVerify parse hmac now token secret =
     (case split CHR ''.'' token of
        [h, c, s] \<Rightarrow>
          if base64url_encode (hmac secret (h @ ''.'' @ c)) \<noteq> s then Inl InvalidSignature
          else
            (case base64url_decode c of
               None \<Rightarrow> Inl Malformed
             | Some text \<Rightarrow>
                 (case parse text of
                    None \<Rightarrow> Inl Malformed
                  | Some decoded \<Rightarrow>
                      if now \<ge> expiry decoded then Inl Expired else Inr decoded))
      | _ \<Rightarrow> Inl Malformed)"

subsection \<open>What a client can see of the stored accounts\<close>

definition forget_digest :: "user_row \<Rightarrow> user_row" where
  "forget_digest r = r\<lparr>password_hash := []\<rparr>"

text \<open>Two databases that differ in the stored digests only.\<close>

definition same_public :: "db \<Rightarrow> db \<Rightarrow> bool" where
  "same_public d d' =
     (seq d = seq d' \<and> map forget_digest (rows d) = map forget_digest (rows d'))"

subsection \<open>Concrete libraries and data, for evaluating the handlers\<close>

text \<open>
  Stand-ins for the library parameters: a salted digest that \<open>sample_compare\<close> accepts,
  where the comparison throws on a password that is not a string; a binder that refuses
  every value that is not a string; a signer and a verifier that know one token; a date
  printer; a unary coding of claims that are numbers; and a keyed hash.
\<close>

definition sample_hash :: "string \<Rightarrow> nat \<Rightarrow> string \<Rightarrow> string" where
  "sample_hash p rounds salt = take 4 (salt @ ''0000'') @ rev p"

fun sample_compare :: "json \<Rightarrow> string \<Rightarrow> string + bool" where
  "sample_compare (JStr p) h = Inr (drop 4 h = rev p)"
| "sample_compare x h = Inl ''data and hash must be strings''"

definition sample_bind :: "json \<Rightarrow> string + string option" where
  "sample_bind x = Inl ''SQLite3 can only bind numbers, strings, bigints, buffers, and null''"

definition sample_sign :: "payload \<Rightarrow> string \<Rightarrow> int \<Rightarrow> int \<Rightarrow> string" where
  "sample_sign pl secret ttl now = ''token-of-'' @ username pl"

definition alice :: user_row where
  "alice = \<lparr>id_col = 1, username = ''alice'', email = ''alice@example.com'',
            password_hash = sample_hash ''secret1'' 10 ''salt'',
            created_at = ''2024-01-01 00:00:00''\<rparr>"

definition alice_claims :: claims where
  "alice_claims =
     \<lparr>userId = 1, username = ''alice'', email = ''alice@example.com'', iat = 1000, exp = 87400\<rparr>"

definition sample_verify :: "string \<Rightarrow> string \<Rightarrow> int \<Rightarrow> claims option" where
  "sample_verify token secret now =
     (if token = ''token-of-alice'' \<and> secret = JWT_SECRET \<and> now < 87400
      then Some alice_claims else None)"

definition sample_toISOString :: "int \<Rightarrow> string" where
  "sample_toISOString ms = ''1970-01-01T00:16:40.000Z''"

definition sample_db :: db where
  "sample_db = \<lparr>rows = [alice], seq = 1\<rparr>"

definition empty_db :: db where
  "empty_db = \<lparr>rows = [], seq = 0\<rparr>"

text \<open>A database whose table once held the largest rowid.\<close>

definition full_db :: db where
  "full_db = \<lparr>rows = [alice], seq = 9223372036854775807\<rparr>"

definition unary_serialize :: "nat token_body \<Rightarrow> string" where
  "unary_serialize b =
     replicate (original b) CHR ''c'' @ replicate (nat (issued_at b)) CHR ''i'' @
     replicate (nat (expiry b)) CHR ''e''"

definition unary_parse :: "string \<Rightarrow> nat token_body option" where
  "unary_parse s =
     (if set s \<subseteq> {CHR ''c'', CHR ''i'', CHR ''e''}
      then Some \<lparr>original = length (filter (\<lambda>x. x = CHR ''c'') s),
                 issued_at = int (length (filter (\<lambda>x. x = CHR ''i'') s)),
                 expiry = int (length (filter (\<lambda>x. x = CHR ''e'') s))\<rparr>
      else None)"

definition sample_hmac :: "string \<Rightarrow> string \<Rightarrow> string" where
  "sample_hmac secret msg = rev secret @ msg"

section \<open>Properties\<close>

subsection \<open>Numbers of the database in JavaScript\<close>

lemma quantum_small: "n < 2 ^ 53 \<Longrightarrow> quantum n = 1"
  by (subst quantum.simps) simp

lemma nearest_double_small: "n < 2 ^ 53 \<Longrightarrow> nearest_double n = n"
  by (simp add: nearest_double_def quantum_small)

lemma js_number_small: "\<bar>i\<bar> < 2 ^ 53 \<Longrightarrow> js_number i = i"
  by (auto simp: js_number_def nearest_double_small)

text \<open>The first integer that is not a double is rounded to its even neighbour.\<close>

lemma quantum_above_2_53: "quantum 9007199254740993 = 2"
  by (subst quantum.simps) (simp add: quantum_small)

lemma js_number_rounds: "js_number 9007199254740993 = 9007199254740992"
  by (simp add: js_number_def nearest_double_def quantum_above_2_53)

subsection \<open>Lookups and inserts\<close>

lemma find_None_iff_all: "find P xs = None \<longleftrightarrow> (\<forall>x\<in>set xs. \<not> P x)"
  by (induction xs) auto


lemma insert_user_fresh:
  assumes "\<forall>r\<in>set (rows d). user_row.username r \<noteq> u \<and> user_row.email r \<noteq> e"
      and "next_rowid d \<le> max_rowid"
  shows "insert_user d u e h ts =
           Inr (\<lparr>rows = rows d @ [\<lparr>id_col = next_rowid d, username = u, email = e,
                  password_hash = h, created_at = ts\<rparr>], seq = next_rowid d\<rparr>, next_rowid d)"
  using assms by (auto simp: insert_user_def list_ex_iff Let_def)

lemma insert_user_full:
  "max_rowid < next_rowid d \<Longrightarrow> insert_user d u e h ts = Inl ''database or disk is full''"
  by (simp add: insert_user_def)

lemma get_by_username_appended:
  assumes "\<forall>r\<in>set xs. user_row.username r \<noteq> u" "user_row.username x = u"
  shows "get_by_username \<lparr>rows = xs @ [x], seq = s\<rparr> u = Some x"
  using assms by (induction xs) (auto simp: get_by_username_def)

subsection \<open>Registration followed by login\<close>

text \<open>
  Claim C1, amended: when the three fields are strings that are not empty, the password has
  at least 6 characters, no account has the username or the email, the table can still
  give a rowid (the largest rowid it ever held is below the largest 64-bit integer), and
  \<^verbatim>\<open>bcrypt.compare\<close> answers true for the password and the digest \<^verbatim>\<open>bcrypt.hash\<close> made
  of it, registration answers 201 and a login with the same username and password on the
  resulting database answers 200 with the token that \<^verbatim>\<open>jwt.sign\<close> made for the new
  account, whose id is the new rowid as a number of JavaScript.
\<close>

theorem register_then_login:
  assumes "u \<noteq> []" "e \<noteq> []" "6 \<le> length p"
      and "\<forall>r\<in>set (rows d). user_row.username r \<noteq> u \<and> user_row.email r \<noteq> e"
      and "next_rowid d \<le> max_rowid"
      and "compare (JStr p) (hash p 10 salt) = Inr True"
      and "registered = register hash salt ts d (Some u) (Some e) (Some p)"
      and "logged_in =
             login compare bind sign now (store registered) (Some (JStr u)) (Some (JStr p))"
  shows "status (reply registered) = 201 \<and>
         status (reply logged_in) = 200 \<and>
         field ''token'' (body (reply logged_in)) =
           Some (JStr (sign \<lparr>userId = js_number (next_rowid d), username = u, email = e\<rparr>
                         JWT_SECRET expiresIn_24h now))"
proof -
  let ?row = "\<lparr>id_col = next_rowid d, username = u, email = e,
              password_hash = hash p 10 salt, created_at = ts\<rparr>"
  let ?d' = "\<lparr>rows = rows d @ [?row], seq = next_rowid d\<rparr>"
  have p_ne: "p \<noteq> []" using assms(3) by auto
  have none: "get_by_username_or_email d u e = None"
    using assms(4) by (auto simp: get_by_username_or_email_def find_None_iff_all)
  have reg: "registered =
      \<lparr>store = ?d', reply = register_created (js_number (next_rowid d)) u e,
       effects = [SqlGet sql_check_existing [JStr u, JStr e],
                  ConsoleLog ''Hashing password...'',
                  BcryptHash p 10,
                  SqlRun sql_insert [JStr u, JStr e, JStr (hash p 10 salt)],
                  ConsoleLog ''User registered successfully'']\<rparr>"
    using assms(1-3,7) p_ne none insert_user_fresh[OF assms(4,5)] by (simp add: Let_def)
  have found: "get_by_username ?d' u = Some ?row"
    using assms(4) by (intro get_by_username_appended) auto
  have log: "reply logged_in =
      login_ok (sign \<lparr>userId = js_number (next_rowid d), username = u, email = e\<rparr>
                  JWT_SECRET expiresIn_24h now) ?row"
    unfolding assms(8) reg using assms(1,6) p_ne found by (simp add: Let_def)
  show ?thesis
    unfolding log unfolding reg by (simp add: register_created_def login_ok_def)
qed

text \<open>The theorem at alice's registration on the empty database.\<close>

theorem register_then_login_witness:
  "status (reply (register sample_hash ''salt'' ''2024-01-01 00:00:00'' empty_db
             (Some ''alice'') (Some ''alice@example.com'') (Some ''secret1''))) = 201 \<and>
   status (reply (login sample_compare sample_bind sample_sign 1000
             (store (register sample_hash ''salt'' ''2024-01-01 00:00:00'' empty_db
                (Some ''alice'') (Some ''alice@example.com'') (Some ''secret1'')))
             (Some (JStr ''alice'')) (Some (JStr ''secret1'')))) = 200 \<and>
   field ''token'' (body (reply (login sample_compare sample_bind sample_sign 1000
             (store (register sample_hash ''salt'' ''2024-01-01 00:00:00'' empty_db
                (Some ''alice'') (Some ''alice@example.com'') (Some ''secret1'')))
             (Some (JStr ''alice'')) (Some (JStr ''secret1''))))) =
     Some (JStr ''token-of-alice'')"
  using register_then_login [of "''alice''" "''alice@example.com''" "''secret1''" empty_db
      sample_compare sample_hash "''salt''" _ "''2024-01-01 00:00:00''" _ sample_bind
      sample_sign 1000, OF _ _ _ _ _ _ refl refl]
  by (simp add: empty_db_def next_rowid_def max_rowid_def sample_hash_def sample_sign_def)

text \<open>
  The claim as stated asks for presence only: with a username that is present and empty,
  a password of 7 characters and no account at all, registration answers 400.
\<close>

theorem register_empty_username_counterexample:
  "rows empty_db = [] \<and> 6 \<le> length ''secret1'' \<and>
   status (reply (register sample_hash ''salt'' ''2024-01-01 00:00:00'' empty_db
             (Some []) (Some ''alice@example.com'') (Some ''secret1''))) = 400"
  by (simp add: empty_db_def register_required_def)

text \<open>
  When the table once held the largest rowid, the INSERT of a registration that passed
  every check throws and the handler answers 500: the amended claim leaves this case out.
\<close>

lemma register_full_table:
  "status (reply (register sample_hash ''salt'' ''2024-06-01 12:00:00'' full_db
             (Some ''bob'') (Some ''bob@example.com'') (Some ''secret2''))) = 500 \<and>
   store (register sample_hash ''salt'' ''2024-06-01 12:00:00'' full_db
             (Some ''bob'') (Some ''bob@example.com'') (Some ''secret2'')) = full_db"
  by (simp add: full_db_def alice_def get_by_username_or_email_def insert_user_def
        next_rowid_def max_rowid_def register_failed_def)

subsection \<open>Failed logins\<close>

text \<open>
  Claim C2, amended: for login calls whose two fields are strings that are not empty, an
  unknown username, and a known username with a password for which \<^verbatim>\<open>bcrypt.compare\<close>
  answers false on the stored digest, both answer 401, and the two responses are equal
  (status and body), also across different databases, usernames, passwords and times.
\<close>

theorem login_failures_indistinguishable:
  assumes "u1 \<noteq> []" "p1 \<noteq> []" "u2 \<noteq> []" "p2 \<noteq> []"
      and "get_by_username d1 u1 = None"
      and "get_by_username d2 u2 = Some user"
      and "compare (JStr p2) (password_hash user) = Inr False"
  shows "status (reply (login compare bind sign now1 d1 (Some (JStr u1)) (Some (JStr p1)))) = 401 \<and>
         status (reply (login compare bind sign now2 d2 (Some (JStr u2)) (Some (JStr p2)))) = 401 \<and>
         reply (login compare bind sign now1 d1 (Some (JStr u1)) (Some (JStr p1))) =
           reply (login compare bind sign now2 d2 (Some (JStr u2)) (Some (JStr p2)))"
  using assms by (simp add: login_unknown_user_def login_wrong_password_def)

theorem login_failures_indistinguishable_witness:
  "status (reply (login sample_compare sample_bind sample_sign 1000 sample_db
             (Some (JStr ''bob'')) (Some (JStr ''secret1'')))) = 401 \<and>
   status (reply (login sample_compare sample_bind sample_sign 1000 sample_db
             (Some (JStr ''alice'')) (Some (JStr ''wrong-password'')))) = 401 \<and>
   reply (login sample_compare sample_bind sample_sign 1000 sample_db
            (Some (JStr ''bob'')) (Some (JStr ''secret1''))) =
     reply (login sample_compare sample_bind sample_sign 1000 sample_db
              (Some (JStr ''alice'')) (Some (JStr ''wrong-password'')))"
  using login_failures_indistinguishable [of "''bob''" "''secret1''" "''alice''"
      "''wrong-password''" sample_db sample_db alice sample_compare sample_bind sample_sign
      1000 1000]
  by (simp add: get_by_username_def sample_db_def alice_def sample_hash_def)

text \<open>
  The claim as stated asks for presence only: a login for an unknown username whose
  password is present and empty answers 400, not 401.
\<close>

theorem login_empty_password_counterexample:
  "get_by_username sample_db ''bob'' = None \<and>
   status (reply (login sample_compare sample_bind sample_sign 1000 sample_db
             (Some (JStr ''bob'')) (Some (JStr [])))) = 400"
  by (simp add: get_by_username_def sample_db_def alice_def login_required_def)

text \<open>
  A password that is present and not a string is outside the amended claim: when
  \<^verbatim>\<open>bcrypt.compare\<close> throws on it, as \<open>sample_compare\<close> does, the handler answers 401 for
  an unknown username and 500 for a known one.
\<close>

lemma login_number_password:
  "status (reply (login sample_compare sample_bind sample_sign 1000 sample_db
             (Some (JStr ''bob'')) (Some (JNum 1234567)))) = 401 \<and>
   status (reply (login sample_compare sample_bind sample_sign 1000 sample_db
             (Some (JStr ''alice'')) (Some (JNum 1234567)))) = 500"
  by (simp add: get_by_username_def sample_db_def alice_def login_unknown_user_def
        login_failed_def)

subsection \<open>The guard of the protected routes\<close>

lemma split_no_sep: "sep \<notin> set xs \<Longrightarrow> split sep xs = [xs]"
  by (induction xs) auto

lemma split_append: "sep \<notin> set xs \<Longrightarrow> split sep (xs @ sep # ys) = xs # split sep ys"
  by (induction xs) auto

lemma split_Bearer:
  "CHR '' '' \<notin> set t \<Longrightarrow> at_index (split CHR '' '' (''Bearer '' @ t)) 1 = Some t"
  by (simp add: split_no_sep at_index_def)

lemma split_empty_header: "at_index (split CHR '' '' []) 1 = None"
  by (simp add: at_index_def)

text \<open>
  Claim C3, amended: \<^verbatim>\<open>verifyToken\<close> answers "No token provided" when the Authorization
  header is absent or empty; "Invalid token format" when the header is not empty and its
  second space-separated part is absent or empty; "Invalid token" when that second part
  is not empty and its verification fails; the status is 401 in the three cases. The
  request reaches the downstream handler exactly when the second space-separated part of
  the header is a non-empty token that verifies: the first part is not compared with
  \<^verbatim>\<open>Bearer\<close> and further parts are ignored. In particular a header \<^verbatim>\<open>Bearer <token>\<close>
  with a verifiable token (without spaces) reaches the handler.
\<close>

theorem verifyToken_cases:
  "(authHeader = None \<or> authHeader = Some [] \<longrightarrow>
      verifyToken verify now authHeader = Rejected no_token_provided []) \<and>
   (authHeader = Some h \<and> h \<noteq> [] \<and>
      (at_index (split CHR '' '' h) 1 = None \<or> at_index (split CHR '' '' h) 1 = Some []) \<longrightarrow>
      verifyToken verify now authHeader = Rejected invalid_token_format []) \<and>
   (authHeader = Some h \<and> at_index (split CHR '' '' h) 1 = Some token \<and> token \<noteq> [] \<and>
      verify token JWT_SECRET now = None \<longrightarrow>
      verifyToken verify now authHeader =
        Rejected invalid_token [JwtVerify token, ConsoleError ''Token verification failed:'']) \<and>
   status no_token_provided = 401 \<and> status invalid_token_format = 401 \<and>
   status invalid_token = 401 \<and>
   (verifyToken verify now authHeader = Next decoded fx \<longleftrightarrow>
      (\<exists>hd tok. authHeader = Some hd \<and> at_index (split CHR '' '' hd) 1 = Some tok \<and>
         tok \<noteq> [] \<and> verify tok JWT_SECRET now = Some decoded \<and> fx = [JwtVerify tok])) \<and>
   (CHR '' '' \<notin> set token \<and> token \<noteq> [] \<and> verify token JWT_SECRET now = Some decoded \<longrightarrow>
      verifyToken verify now (Some (''Bearer '' @ token)) = Next decoded [JwtVerify token])"
proof -
  have a: "authHeader = None \<or> authHeader = Some [] \<longrightarrow>
      verifyToken verify now authHeader = Rejected no_token_provided []"
    by (auto simp: verifyToken_def)
  have b: "authHeader = Some h \<and> h \<noteq> [] \<and>
      (at_index (split CHR '' '' h) 1 = None \<or> at_index (split CHR '' '' h) 1 = Some []) \<longrightarrow>
      verifyToken verify now authHeader = Rejected invalid_token_format []"
    by (auto simp: verifyToken_def)
  have c: "authHeader = Some h \<and> at_index (split CHR '' '' h) 1 = Some token \<and> token \<noteq> [] \<and>
      verify token JWT_SECRET now = None \<longrightarrow>
      verifyToken verify now authHeader =
        Rejected invalid_token [JwtVerify token, ConsoleError ''Token verification failed:'']"
    using split_empty_header by (auto simp: verifyToken_def)
  have d: "verifyToken verify now authHeader = Next decoded fx \<longleftrightarrow>
      (\<exists>hd tok. authHeader = Some hd \<and> at_index (split CHR '' '' hd) 1 = Some tok \<and>
         tok \<noteq> [] \<and> verify tok JWT_SECRET now = Some decoded \<and> fx = [JwtVerify tok])"
    using split_empty_header by (auto simp: verifyToken_def split: option.splits if_splits)
  have e: "CHR '' '' \<notin> set token \<and> token \<noteq> [] \<and> verify token JWT_SECRET now = Some decoded \<longrightarrow>
      verifyToken verify now (Some (''Bearer '' @ token)) = Next decoded [JwtVerify token]"
    using split_Bearer[of token] by (auto simp: verifyToken_def)
  show ?thesis
    using a b c d e
    by (simp only: no_token_provided_def invalid_token_format_def invalid_token_def
          response.simps simp_thms)
qed

text \<open>The theorem at four requests: no header, the scheme alone, a forged token, and
  alice's token.\<close>

theorem verifyToken_cases_witness:
  "verifyToken sample_verify 2000 None = Rejected no_token_provided [] \<and>
   verifyToken sample_verify 2000 (Some ''Bearer'') = Rejected invalid_token_format [] \<and>
   verifyToken sample_verify 2000 (Some ''Bearer forged'') =
     Rejected invalid_token [JwtVerify ''forged'', ConsoleError ''Token verification failed:''] \<and>
   verifyToken sample_verify 2000 (Some ''Bearer token-of-alice'') =
     Next alice_claims [JwtVerify ''token-of-alice'']"
  using verifyToken_cases [of None sample_verify 2000 "''Bearer''" "''forged''" alice_claims "[]"]
    verifyToken_cases [of "Some ''Bearer''" sample_verify 2000 "''Bearer''" "''forged''"
      alice_claims "[]"]
    verifyToken_cases [of "Some ''Bearer forged''" sample_verify 2000 "''Bearer forged''"
      "''forged''" alice_claims "[]"]
    verifyToken_cases [of "Some ''Bearer token-of-alice''" sample_verify 2000
      "''Bearer token-of-alice''" "''token-of-alice''" alice_claims "[JwtVerify ''token-of-alice'']"]
  by (simp add: at_index_def sample_verify_def)

text \<open>
  The claim as stated makes the scheme word \<^verbatim>\<open>Bearer\<close> necessary: a header
  \<^verbatim>\<open>Basic <token>\<close> with alice's token passes the guard.
\<close>

theorem verifyToken_scheme_counterexample:
  "verifyToken sample_verify 2000 (Some ''Basic token-of-alice'') =
     Next alice_claims [JwtVerify ''token-of-alice'']"
  by (simp add: verifyToken_def at_index_def sample_verify_def)

text \<open>
  Claim C4, amended: every response by which \<^verbatim>\<open>verifyToken\<close> rejects a request has
  status 401, and its body tells which of the three failure modes occurred: the three
  bodies differ, and each one is sent in its own mode only.
\<close>

theorem verifyToken_rejections:
  assumes "verifyToken verify now authHeader = Rejected r fx"
  shows "status r = 401 \<and>
         (body r = body no_token_provided \<longleftrightarrow> authHeader = None \<or> authHeader = Some []) \<and>
         (body r = body invalid_token_format \<longleftrightarrow>
            (\<exists>h. authHeader = Some h \<and> h \<noteq> [] \<and>
               (at_index (split CHR '' '' h) 1 = None \<or>
                at_index (split CHR '' '' h) 1 = Some []))) \<and>
         (body r = body invalid_token \<longleftrightarrow>
            (\<exists>h token. authHeader = Some h \<and> at_index (split CHR '' '' h) 1 = Some token \<and>
               token \<noteq> [] \<and> verify token JWT_SECRET now = None))"
  using assms split_empty_header
  by (auto simp: verifyToken_def no_token_provided_def invalid_token_format_def
        invalid_token_def split: option.splits if_splits)

theorem verifyToken_rejections_witness:
  "status invalid_token_format = 401 \<and>
   body invalid_token_format \<noteq> body no_token_provided \<and>
   body invalid_token_format \<noteq> body invalid_token"
  using verifyToken_rejections [of sample_verify 2000 "Some ''Bearer''" invalid_token_format "[]"]
  by (simp add: verifyToken_def at_index_def)

text \<open>
  The claim as stated says that the body does not reveal the failure mode: the bodies of
  the three rejections are different.
\<close>

theorem verifyToken_bodies_counterexample:
  "verifyToken sample_verify 2000 None = Rejected no_token_provided [] \<and>
   verifyToken sample_verify 2000 (Some ''Bearer'') = Rejected invalid_token_format [] \<and>
   verifyToken sample_verify 2000 (Some ''Bearer forged'') =
     Rejected invalid_token [JwtVerify ''forged'', ConsoleError ''Token verification failed:''] \<and>
   body no_token_provided \<noteq> body invalid_token_format \<and>
   body invalid_token_format \<noteq> body invalid_token \<and>
   body no_token_provided \<noteq> body invalid_token"
  by (simp add: verifyToken_def at_index_def sample_verify_def no_token_provided_def
        invalid_token_format_def invalid_token_def)

subsection \<open>Rejected registrations\<close>







text \<open>
  Claim C9: a Register call that answers 400 leaves the database as it was, and the
  INSERT statement is not among the effects of the call.
\<close>

theorem register_400_store_unchanged:
  assumes "status (reply (register hash salt ts d u e p)) = 400"
  shows "store (register hash salt ts d u e p) = d \<and>
         (\<forall>params. SqlRun sql_insert params \<notin> set (effects (register hash salt ts d u e p)))"
  using assms
  by (cases u; cases e; cases p)
     (auto simp: Let_def register_created_def register_failed_def
           split: if_splits option.splits sum.splits)

theorem register_400_store_unchanged_witness:
  "status (reply (register sample_hash ''salt'' ''2024-06-01 12:00:00'' sample_db
             (Some ''alice'') (Some ''alice2@example.com'') (Some ''secret2''))) = 400 \<and>
   store (register sample_hash ''salt'' ''2024-06-01 12:00:00'' sample_db
             (Some ''alice'') (Some ''alice2@example.com'') (Some ''secret2'')) = sample_db \<and>
   effects (register sample_hash ''salt'' ''2024-06-01 12:00:00'' sample_db
             (Some ''alice'') (Some ''alice2@example.com'') (Some ''secret2'')) =
     [SqlGet sql_check_existing [JStr ''alice'', JStr ''alice2@example.com'']]"
  using register_400_store_unchanged [of sample_hash "''salt''" "''2024-06-01 12:00:00''"
      sample_db "Some ''alice''" "Some ''alice2@example.com''" "Some ''secret2''"]
  by (simp add: sample_db_def alice_def get_by_username_or_email_def register_exists_def)

subsection \<open>Empty strings\<close>

text \<open>
  Claim C10: a Register or Login call in which a required field is the empty string gets
  the result of the call in which that field is absent, which is the 400 validation
  response; the call has no effects, so neither a database lookup nor a password
  comparison runs (for any password, also the empty one, given to login).
\<close>

theorem empty_string_is_missing:
  "register hash salt ts d (Some []) e p = register hash salt ts d None e p \<and>
   register hash salt ts d u (Some []) p = register hash salt ts d u None p \<and>
   register hash salt ts d u e (Some []) = register hash salt ts d u e None \<and>
   register hash salt ts d u e None = \<lparr>store = d, reply = register_required, effects = []\<rparr> \<and>
   register hash salt ts d u None p = \<lparr>store = d, reply = register_required, effects = []\<rparr> \<and>
   register hash salt ts d None e p = \<lparr>store = d, reply = register_required, effects = []\<rparr> \<and>
   status register_required = 400 \<and>
   login compare bind sign now d (Some (JStr [])) lp = login compare bind sign now d None lp \<and>
   login compare bind sign now d lu (Some (JStr [])) = login compare bind sign now d lu None \<and>
   login compare bind sign now d lu None = \<lparr>store = d, reply = login_required, effects = []\<rparr> \<and>
   login compare bind sign now d None lp = \<lparr>store = d, reply = login_required, effects = []\<rparr> \<and>
   status login_required = 400"
  by (cases u; cases e; cases p; cases lu; cases lp)
     (simp_all add: register_required_def login_required_def)

theorem empty_string_is_missing_witness:
  "login sample_compare sample_bind sample_sign 1000 sample_db
     (Some (JStr ''alice'')) (Some (JStr [])) =
     \<lparr>store = sample_db, reply = login_required, effects = []\<rparr> \<and>
   register sample_hash ''salt'' ''2024-06-01 12:00:00'' sample_db
     (Some ''bob'') (Some []) (Some ''secret2'') =
     \<lparr>store = sample_db, reply = register_required, effects = []\<rparr>"
  using empty_string_is_missing [of sample_hash "''salt''" "''2024-06-01 12:00:00''" sample_db
      "Some ''bob@example.com''" "Some ''secret2''" "Some ''bob''" sample_compare sample_bind
      sample_sign 1000 "Some (JStr ''secret2'')" "Some (JStr ''alice'')"]
  by simp

subsection \<open>The stored digest stays in the database\<close>

lemma selected_columns_keys:
  "json_keys (selected_columns r) = [''id'', ''username'', ''email'', ''created_at'']"
  "own_keys (selected_columns r) = [''id'', ''username'', ''email'', ''created_at'']"
  by (simp_all add: selected_columns_def)

lemma all_users_keys: "''password_hash'' \<notin> set (concat (map json_keys (all_users d)))"
  by (auto simp: all_users_def selected_columns_keys)

lemma reply_guarded:
  "reply (guarded d g handler) =
     (case g of Rejected r fx \<Rightarrow> r | Next c fx \<Rightarrow> reply (handler c))"
  by (cases g) (simp_all add: guarded_def Let_def)

lemma verifyToken_rejected_401: "verifyToken verify now h = Rejected r fx \<Longrightarrow> status r = 401"
  by (auto simp: verifyToken_def no_token_provided_def invalid_token_format_def
        invalid_token_def split: option.splits if_splits)

lemma register_body_keys:
  assumes "status (reply (register hash salt ts d u e p)) = 201"
  shows "''password_hash'' \<notin> set (json_keys (body (reply (register hash salt ts d u e p)))) \<and>
         map_option own_keys (field ''user'' (body (reply (register hash salt ts d u e p)))) =
           Some [''id'', ''username'', ''email'']"
  using assms
  by (cases u; cases e; cases p)
     (auto simp: Let_def register_required_def register_too_short_def register_exists_def
        register_failed_def register_created_def split: if_splits option.splits sum.splits)

lemma login_body_keys:
  assumes "status (reply (login compare bind sign now d u p)) = 200"
  shows "''password_hash'' \<notin>
           set (json_keys (body (reply (login compare bind sign now d u p)))) \<and>
         map_option own_keys (field ''user'' (body (reply (login compare bind sign now d u p)))) =
           Some [''id'', ''username'', ''email'']"
  using assms
  by (cases u; cases p)
     (auto simp: Let_def login_required_def login_unknown_user_def login_wrong_password_def
        login_failed_def login_ok_def split: if_splits option.splits sum.splits)

lemma profile_body_keys:
  assumes "status (reply (profile verify toISOString now d authHeader)) = 200"
  shows "''password_hash'' \<notin>
           set (json_keys (body (reply (profile verify toISOString now d authHeader)))) \<and>
         map_option own_keys
           (field ''user'' (body (reply (profile verify toISOString now d authHeader)))) =
           Some [''id'', ''username'', ''email'', ''created_at'']"
proof (cases "verifyToken verify now authHeader")
  case (Rejected r fx)
  with assms verifyToken_rejected_401[OF Rejected] show ?thesis
    by (simp add: profile_def reply_guarded)
next
  case (Next c fx)
  with assms show ?thesis
    by (auto simp: profile_def reply_guarded profile_handler_def get_by_id_def user_not_found_def
          profile_ok_def selected_columns_keys split: option.splits)
qed

lemma users_body_keys:
  assumes "status (reply (users verify now d authHeader)) = 200"
  shows "''password_hash'' \<notin> set (json_keys (body (reply (users verify now d authHeader)))) \<and>
         (\<exists>xs. field ''users'' (body (reply (users verify now d authHeader))) = Some (JArr xs) \<and>
            (\<forall>x\<in>set xs. own_keys x = [''id'', ''username'', ''email'', ''created_at'']))"
proof (cases "verifyToken verify now authHeader")
  case (Rejected r fx)
  with assms verifyToken_rejected_401[OF Rejected] show ?thesis
    by (simp add: users_def reply_guarded)
next
  case (Next c fx)
  have "''password_hash'' \<notin> set (json_keys (body (reply (users_handler d c))))"
    using all_users_keys[of d] by (simp add: users_handler_def users_ok_def)
  moreover have "field ''users'' (body (reply (users_handler d c))) = Some (JArr (all_users d))"
    by (simp add: users_handler_def users_ok_def)
  moreover have "\<forall>x\<in>set (all_users d). own_keys x = [''id'', ''username'', ''email'', ''created_at'']"
    by (auto simp: all_users_def selected_columns_keys)
  ultimately show ?thesis using Next by (simp add: users_def reply_guarded)
qed

text \<open>Databases that differ in the digests only give the same lookups, as far as a
  response shows them.\<close>

lemma find_forget:
  assumes "map forget_digest xs = map forget_digest ys" "\<And>r. P (forget_digest r) = P r"
  shows "map_option forget_digest (find P xs) = map_option forget_digest (find P ys)"
  using assms(1)
proof (induction xs arbitrary: ys)
  case Nil
  then show ?case by simp
next
  case (Cons x xs)
  then obtain y ys' where ys: "ys = y # ys'" "forget_digest x = forget_digest y"
      "map forget_digest xs = map forget_digest ys'" by (cases ys) auto
  have "P x = P y" using assms(2)[of x] assms(2)[of y] ys(2) by simp
  with Cons.IH[OF ys(3)] ys show ?case by simp
qed

lemma list_ex_forget:
  assumes "map forget_digest xs = map forget_digest ys" "\<And>r. P (forget_digest r) = P r"
  shows "list_ex P xs = list_ex P ys"
proof -
  have "list_ex P zs = list_ex P (map forget_digest zs)" for zs
    by (induction zs) (simp_all add: assms(2))
  then show ?thesis using assms(1) by metis
qed

lemma id_col_forget:
  assumes "map forget_digest xs = map forget_digest ys"
  shows "map id_col xs = map id_col ys"
proof -
  have "map id_col zs = map id_col (map forget_digest zs)" for zs
    by (simp add: forget_digest_def)
  then show ?thesis using assms by metis
qed

lemma selected_columns_forget: "selected_columns (forget_digest r) = selected_columns r"
  by (simp add: selected_columns_def forget_digest_def)

lemma next_rowid_public: "same_public d d' \<Longrightarrow> next_rowid d = next_rowid d'"
  using id_col_forget[of "rows d" "rows d'"] by (simp add: next_rowid_def same_public_def)

lemma check_existing_public:
  assumes "same_public d d'"
  shows "(get_by_username_or_email d u e = None) = (get_by_username_or_email d' u e = None)"
proof -
  have "map_option forget_digest (get_by_username_or_email d u e) =
        map_option forget_digest (get_by_username_or_email d' u e)"
    unfolding get_by_username_or_email_def using assms
    by (intro find_forget) (simp_all add: same_public_def forget_digest_def)
  then show ?thesis by (metis option.map_disc_iff)
qed

lemma insert_user_public:
  assumes "same_public d d'"
  shows "map_sum (\<lambda>msg. msg) snd (insert_user d u e h ts) =
         map_sum (\<lambda>msg. msg) snd (insert_user d' u e h ts)"
proof -
  have "list_ex (\<lambda>r. user_row.username r = u) (rows d) =
        list_ex (\<lambda>r. user_row.username r = u) (rows d')"
    using assms by (intro list_ex_forget) (simp_all add: same_public_def forget_digest_def)
  moreover have "list_ex (\<lambda>r. user_row.email r = e) (rows d) =
        list_ex (\<lambda>r. user_row.email r = e) (rows d')"
    using assms by (intro list_ex_forget) (simp_all add: same_public_def forget_digest_def)
  ultimately show ?thesis
    using next_rowid_public[OF assms] by (simp add: insert_user_def Let_def)
qed

lemma register_public:
  assumes "same_public d d'"
  shows "reply (register hash salt ts d u e p) = reply (register hash salt ts d' u e p)"
proof (cases "\<exists>un em pw. u = Some un \<and> e = Some em \<and> p = Some pw \<and> un \<noteq> [] \<and> em \<noteq> [] \<and>
                6 \<le> length pw")
  case False
  then show ?thesis by (cases u; cases e; cases p) auto
next
  case True
  then obtain un em pw where v: "u = Some un" "e = Some em" "p = Some pw" "un \<noteq> []" "em \<noteq> []"
      "6 \<le> length pw" by blast
  then have pw: "pw \<noteq> []" "\<not> length pw < 6" by auto
  show ?thesis
  proof (cases "get_by_username_or_email d un em")
    case (Some x)
    then obtain y where "get_by_username_or_email d' un em = Some y"
      using check_existing_public[OF assms, of un em] by auto
    with Some v pw show ?thesis by simp
  next
    case None
    then have None': "get_by_username_or_email d' un em = None"
      using check_existing_public[OF assms, of un em] by simp
    from insert_user_public[OF assms, of un em "hash pw 10 salt" ts]
    have "(\<exists>msg. insert_user d un em (hash pw 10 salt) ts = Inl msg \<and>
                insert_user d' un em (hash pw 10 salt) ts = Inl msg) \<or>
          (\<exists>s s' i. insert_user d un em (hash pw 10 salt) ts = Inr (s, i) \<and>
                insert_user d' un em (hash pw 10 salt) ts = Inr (s', i))"
      by (cases "insert_user d un em (hash pw 10 salt) ts";
          cases "insert_user d' un em (hash pw 10 salt) ts") auto
    with None None' v pw show ?thesis by (auto simp: Let_def)
  qed
qed

lemma register_new_digest:
  "reply (register hash salt ts d u e p) = reply (register hash' salt' ts' d u e p)"
  by (cases u; cases e; cases p)
     (auto simp: Let_def insert_user_def split: option.splits)

lemma find_user_public:
  assumes "same_public d d'"
  shows "map_sum (\<lambda>msg. msg) (map_option forget_digest) (find_user bind d x) =
         map_sum (\<lambda>msg. msg) (map_option forget_digest) (find_user bind d' x)"
proof -
  have eq: "map_option forget_digest (get_by_username d t) =
        map_option forget_digest (get_by_username d' t)" for t
    unfolding get_by_username_def using assms
    by (intro find_forget) (simp_all add: same_public_def forget_digest_def)
  show ?thesis
    by (cases x) (simp_all add: eq split: sum.splits option.splits)
qed

lemma login_200:
  assumes "status (reply (login compare bind sign now d u p)) = 200"
  shows "\<exists>x pw user. u = Some x \<and> p = Some pw \<and> find_user bind d x = Inr (Some user) \<and>
           reply (login compare bind sign now d u p) =
             login_ok (sign \<lparr>userId = js_number (id_col user),
                         username = user_row.username user, email = user_row.email user\<rparr>
                         JWT_SECRET expiresIn_24h now) user"
  using assms
  by (cases u; cases p)
     (auto simp: Let_def login_required_def login_unknown_user_def login_wrong_password_def
        login_failed_def split: if_splits option.splits sum.splits)

lemma login_public:
  assumes "same_public d d'"
      and "status (reply (login compare bind sign now d u p)) = 200"
      and "status (reply (login compare bind sign now d' u p)) = 200"
  shows "reply (login compare bind sign now d u p) = reply (login compare bind sign now d' u p)"
proof -
  from login_200[OF assms(2)] obtain x a where
    a: "u = Some x" "find_user bind d x = Inr (Some a)"
       "reply (login compare bind sign now d u p) =
          login_ok (sign \<lparr>userId = js_number (id_col a), username = user_row.username a,
                      email = user_row.email a\<rparr> JWT_SECRET expiresIn_24h now) a"
    by blast
  from login_200[OF assms(3)] obtain y b where
    b: "u = Some y" "find_user bind d' y = Inr (Some b)"
       "reply (login compare bind sign now d' u p) =
          login_ok (sign \<lparr>userId = js_number (id_col b), username = user_row.username b,
                      email = user_row.email b\<rparr> JWT_SECRET expiresIn_24h now) b"
    by blast
  from a(1) b(1) have "y = x" by simp
  with find_user_public[OF assms(1), of bind x] a(2) b(2)
  have "forget_digest a = forget_digest b" by simp
  then have "id_col a = id_col b" "user_row.username a = user_row.username b"
      "user_row.email a = user_row.email b"
    by (cases a; cases b; simp add: forget_digest_def)+
  then show ?thesis unfolding a(3) b(3) by (simp add: login_ok_def)
qed

lemma get_by_id_public: "same_public d d' \<Longrightarrow> get_by_id d i = get_by_id d' i"
proof -
  assume "same_public d d'"
  then have "map_option forget_digest (find (\<lambda>r. id_col r = i) (rows d)) =
             map_option forget_digest (find (\<lambda>r. id_col r = i) (rows d'))"
    by (intro find_forget) (simp_all add: same_public_def forget_digest_def)
  then have "map_option selected_columns
               (map_option forget_digest (find (\<lambda>r. id_col r = i) (rows d))) =
             map_option selected_columns
               (map_option forget_digest (find (\<lambda>r. id_col r = i) (rows d')))"
    by simp
  then show ?thesis
    by (simp add: get_by_id_def option.map_comp comp_def selected_columns_forget)
qed

lemma all_users_public: "same_public d d' \<Longrightarrow> all_users d = all_users d'"
proof -
  assume "same_public d d'"
  then have "map selected_columns (map forget_digest (rows d)) =
             map selected_columns (map forget_digest (rows d'))"
    by (simp add: same_public_def)
  then show ?thesis by (simp add: all_users_def comp_def selected_columns_forget)
qed

lemma profile_public:
  "same_public d d' \<Longrightarrow>
     reply (profile verify toISOString now d h) = reply (profile verify toISOString now d' h)"
  by (cases "verifyToken verify now h")
     (simp_all add: profile_def reply_guarded profile_handler_def get_by_id_public
        split: option.splits)

lemma users_public:
  "same_public d d' \<Longrightarrow> reply (users verify now d h) = reply (users verify now d' h)"
  by (cases "verifyToken verify now h")
     (simp_all add: users_def reply_guarded users_handler_def all_users_public)

text \<open>
  Claim C8: in every successful response of Register (201), Login (200), Profile (200) and
  List accounts (200) no property is named \<^verbatim>\<open>password_hash\<close>, at any depth of the body;
  the account object has the properties id, username, email (Register, Login) or id,
  username, email, created_at (Profile, every element of the list), and no other.
  Moreover the responses do not depend on the stored digests: on two databases that differ
  in the digests only, Register, Profile and List accounts answer the same, and so does
  Login whenever it succeeds on both; and the response of Register does not depend on the
  digest it stores.
\<close>

theorem success_bodies_exclude_digest:
  "(status (reply (register hash salt ts d u e p)) = 201 \<longrightarrow>
      ''password_hash'' \<notin> set (json_keys (body (reply (register hash salt ts d u e p)))) \<and>
      map_option own_keys (field ''user'' (body (reply (register hash salt ts d u e p)))) =
        Some [''id'', ''username'', ''email'']) \<and>
   (status (reply (login compare bind sign now d lu lp)) = 200 \<longrightarrow>
      ''password_hash'' \<notin> set (json_keys (body (reply (login compare bind sign now d lu lp)))) \<and>
      map_option own_keys (field ''user'' (body (reply (login compare bind sign now d lu lp)))) =
        Some [''id'', ''username'', ''email'']) \<and>
   (status (reply (profile verify toISOString now d authHeader)) = 200 \<longrightarrow>
      ''password_hash'' \<notin>
        set (json_keys (body (reply (profile verify toISOString now d authHeader)))) \<and>
      map_option own_keys
        (field ''user'' (body (reply (profile verify toISOString now d authHeader)))) =
        Some [''id'', ''username'', ''email'', ''created_at'']) \<and>
   (status (reply (users verify now d authHeader)) = 200 \<longrightarrow>
      ''password_hash'' \<notin> set (json_keys (body (reply (users verify now d authHeader)))) \<and>
      (\<exists>xs. field ''users'' (body (reply (users verify now d authHeader))) = Some (JArr xs) \<and>
         (\<forall>x\<in>set xs. own_keys x = [''id'', ''username'', ''email'', ''created_at'']))) \<and>
   (same_public d d' \<longrightarrow>
      reply (register hash salt ts d u e p) = reply (register hash salt ts d' u e p) \<and>
      (status (reply (login compare bind sign now d lu lp)) = 200 \<and>
       status (reply (login compare bind sign now d' lu lp)) = 200 \<longrightarrow>
         reply (login compare bind sign now d lu lp) = reply (login compare bind sign now d' lu lp)) \<and>
      reply (profile verify toISOString now d authHeader) =
        reply (profile verify toISOString now d' authHeader) \<and>
      reply (users verify now d authHeader) = reply (users verify now d' authHeader)) \<and>
   reply (register hash salt ts d u e p) = reply (register hash' salt' ts' d u e p)"
  using register_body_keys[of hash salt ts d u e p]
    login_body_keys[of compare bind sign now d lu lp]
    profile_body_keys[of verify toISOString now d authHeader]
    users_body_keys[of verify now d authHeader]
    register_public[of d d' hash salt ts u e p]
    login_public[of d d' compare bind sign now lu lp]
    profile_public[of d d' verify toISOString now authHeader]
    users_public[of d d' verify now authHeader]
    register_new_digest[of hash salt ts d u e p hash' salt' ts']
  by blast

text \<open>The theorem at alice's registration, login, profile and list of accounts, and at a
  second database in which alice's digest is another one.\<close>

theorem success_bodies_exclude_digest_witness:
  "status (reply (register sample_hash ''salt'' ''2024-01-01 00:00:00'' empty_db
             (Some ''alice'') (Some ''alice@example.com'') (Some ''secret1''))) = 201 \<and>
   ''password_hash'' \<notin> set (json_keys (body (reply
      (register sample_hash ''salt'' ''2024-01-01 00:00:00'' empty_db
         (Some ''alice'') (Some ''alice@example.com'') (Some ''secret1''))))) \<and>
   status (reply (login sample_compare sample_bind sample_sign 2000 sample_db
             (Some (JStr ''alice'')) (Some (JStr ''secret1'')))) = 200 \<and>
   ''password_hash'' \<notin> set (json_keys (body (reply
      (login sample_compare sample_bind sample_sign 2000 sample_db
         (Some (JStr ''alice'')) (Some (JStr ''secret1'')))))) \<and>
   status (reply (profile sample_verify sample_toISOString 2000 sample_db
             (Some ''Bearer token-of-alice''))) = 200 \<and>
   map_option own_keys (field ''user'' (body (reply
      (profile sample_verify sample_toISOString 2000 sample_db
         (Some ''Bearer token-of-alice''))))) =
     Some [''id'', ''username'', ''email'', ''created_at''] \<and>
   status (reply (users sample_verify 2000 sample_db (Some ''Bearer token-of-alice''))) = 200 \<and>
   ''password_hash'' \<notin> set (json_keys (body (reply
      (users sample_verify 2000 sample_db (Some ''Bearer token-of-alice''))))) \<and>
   reply (profile sample_verify sample_toISOString 2000 sample_db
            (Some ''Bearer token-of-alice'')) =
     reply (profile sample_verify sample_toISOString 2000
              \<lparr>rows = [alice\<lparr>password_hash := ''another digest''\<rparr>], seq = 1\<rparr>
              (Some ''Bearer token-of-alice''))"
  using success_bodies_exclude_digest [of sample_hash "''salt''" "''2024-01-01 00:00:00''"
      empty_db "Some ''alice''" "Some ''alice@example.com''" "Some ''secret1''"
      sample_compare sample_bind sample_sign 2000 "Some (JStr ''alice'')"
      "Some (JStr ''secret1'')"
      sample_verify sample_toISOString "Some ''Bearer token-of-alice''" empty_db]
    success_bodies_exclude_digest [of sample_hash "''salt''" "''2024-01-01 00:00:00''"
      sample_db "Some ''alice''" "Some ''alice@example.com''" "Some ''secret1''"
      sample_compare sample_bind sample_sign 2000 "Some (JStr ''alice'')"
      "Some (JStr ''secret1'')"
      sample_verify sample_toISOString "Some ''Bearer token-of-alice''"
      "\<lparr>rows = [alice\<lparr>password_hash := ''another digest''\<rparr>], seq = 1\<rparr>"]
  by (simp add: empty_db_def sample_db_def alice_def same_public_def forget_digest_def
        get_by_username_or_email_def get_by_username_def insert_user_def next_rowid_def
        max_rowid_def js_number_small Let_def register_created_def login_ok_def sample_hash_def
        profile_def users_def guarded_def verifyToken_def at_index_def sample_verify_def
        profile_handler_def users_handler_def get_by_id_def alice_claims_def
        profile_ok_def users_ok_def all_users_def selected_columns_def)

subsection \<open>The base64url coding\<close>

lemma alphabet_length: "length base64url_alphabet = 64"
  by (simp add: base64url_alphabet_def)

lemma alphabet_distinct: "distinct base64url_alphabet"
  by (simp add: base64url_alphabet_def)

lemma index_of_nth: "distinct xs \<Longrightarrow> n < length xs \<Longrightarrow> index_of (xs ! n) xs = Some n"
proof (induction xs arbitrary: n)
  case Nil
  then show ?case by simp
next
  case (Cons x xs)
  then show ?case by (cases n) auto
qed

lemma char_sextet_inverse: "n < 64 \<Longrightarrow> char_sextet (sextet_char n) = Some n"
  by (simp add: char_sextet_def sextet_char_def index_of_nth alphabet_distinct alphabet_length)

lemma sextet_char_no_dot: "n < 64 \<Longrightarrow> CHR ''.'' \<noteq> sextet_char n"
proof -
  assume "n < 64"
  then have "sextet_char n \<in> set base64url_alphabet"
    by (simp add: sextet_char_def alphabet_length)
  moreover have "CHR ''.'' \<notin> set base64url_alphabet"
    by (simp add: base64url_alphabet_def)
  ultimately show ?thesis by auto
qed

lemma byte_bound: "byte c < 256"
  unfolding byte_def using mod_less_divisor[of 256 "of_char c :: nat"] by simp

lemma char_of_byte: "char_of (byte c) = c"
  by (simp add: byte_def)

lemma byte_div_bound: "byte c div 16 < 16" "byte c div 64 < 4" "byte c div 4 < 64"
  using byte_bound[of c] by (simp_all add: less_mult_imp_div_less)

lemma pack_div: "b < n \<Longrightarrow> (a * n + b) div n = (a::nat)"
  by simp

lemma pack_mod: "b < n \<Longrightarrow> (a * n + b) mod n = (b::nat)"
  by simp

lemma pack_bound: "a < m \<Longrightarrow> b < n \<Longrightarrow> a * n + b < m * (n::nat)"
proof -
  assume "a < m" "b < n"
  then have "a * n + b < a * n + n" by simp
  also have "\<dots> = Suc a * n" by simp
  also have "\<dots> \<le> m * n" using \<open>a < m\<close> by (intro mult_le_mono1) simp
  finally show ?thesis .
qed

text \<open>The six-bit groups of one, two and three bytes are below 64.\<close>

lemma sextet1: "byte a div 4 < 64"
  by (rule byte_div_bound)

lemma sextet2: "byte a mod 4 * 16 + byte b div 16 < 64"
  using pack_bound[of "byte a mod 4" 4 "byte b div 16" 16] byte_div_bound(1)[of b] by simp

lemma sextet3: "byte b mod 16 * 4 + byte c div 64 < 64"
  using pack_bound[of "byte b mod 16" 16 "byte c div 64" 4] byte_div_bound(2)[of c] by simp

lemma sextet3_last: "byte b mod 16 * 4 < 64"
  using pack_bound[of "byte b mod 16" 16 0 4] by simp

lemma sextet2_last: "byte a mod 4 * 16 < 64"
  using pack_bound[of "byte a mod 4" 4 0 16] by simp

lemma sextet4: "byte c mod 64 < 64"
  by simp

text \<open>The bytes come back from their six-bit groups.\<close>

lemma octet1: "byte a div 4 * 4 + (byte a mod 4 * 16 + byte b div 16) div 16 = byte a"
  by (simp add: pack_div byte_div_bound)

lemma octet1_last: "byte a div 4 * 4 + (byte a mod 4 * 16) div 16 = byte a"
  by simp

lemma octet2:
  "(byte a mod 4 * 16 + byte b div 16) mod 16 * 16 + (byte b mod 16 * 4 + byte c div 64) div 4 =
     byte b"
  by (simp add: pack_div pack_mod byte_div_bound)

lemma octet2_last:
  "(byte a mod 4 * 16 + byte b div 16) mod 16 * 16 + (byte b mod 16 * 4) div 4 = byte b"
  by (simp add: pack_mod byte_div_bound)

lemma octet3: "(byte b mod 16 * 4 + byte c div 64) mod 4 * 64 + byte c mod 64 = byte c"
  by (simp add: pack_mod byte_div_bound)

lemmas sextet_inverses =
  char_sextet_inverse[OF sextet1] char_sextet_inverse[OF sextet2] char_sextet_inverse[OF sextet3]
  char_sextet_inverse[OF sextet4] char_sextet_inverse[OF sextet2_last]
  char_sextet_inverse[OF sextet3_last]

lemma base64url_no_dot: "CHR ''.'' \<notin> set (base64url_encode bs)"
  by (induction bs rule: base64url_encode.induct)
     (simp_all add: sextet_char_no_dot sextet1 sextet2 sextet3 sextet4 sextet2_last sextet3_last)

lemma base64url_roundtrip: "base64url_decode (base64url_encode bs) = Some bs"
  by (induction bs rule: base64url_encode.induct)
     (simp_all only: base64url_encode.simps base64url_decode.simps sextet_inverses
        prod.case option.case octet1 octet1_last octet2 octet2_last octet3 char_of_byte)

text \<open>The first segment of the example token in the README of the module.\<close>

lemma jwt_header_segment:
  "base64url_encode jwt_header = ''eyJhbGciOiJIUzI1NiIsInR5cCI6IkpXVCJ9''"
  by (simp add: jwt_header_def sextet_char_def byte_def base64url_alphabet_def)

text \<open>The second segment of the token in the README's login response: the payload of
  the login handler with the two timestamps, 24 hours apart.\<close>

lemma readme_payload_segment:
  \<open>base64url_encode
     (''{"userId":1,"username":"alice","email":"alice@example.com",'' @
      ''"iat":1706123456,"exp":1706209856}'') =
   ''eyJ1c2VySWQiOjEsInVzZXJuYW1lIjoiYWxpY2UiLCJlbWFpbCI6ImFsaWNlQGV4YW1wbGUuY29tIiwi'' @
   ''aWF0IjoxNzA2MTIzNDU2LCJleHAiOjE3MDYyMDk4NTZ9''\<close>
  by (simp add: sextet_char_def byte_def base64url_alphabet_def)

subsection \<open>Issued tokens\<close>

lemma split_three:
  assumes "sep \<notin> set h" "sep \<notin> set c" "sep \<notin> set s"
  shows "split sep (h @ [sep] @ c @ [sep] @ s) = [h, c, s]"
  using assms by (simp add: split_append split_no_sep)

lemma TokenIssue_segments:
  "split CHR ''.'' (TokenIssue serialize hmac now claims secret ttl) =
     [base64url_encode jwt_header,
      base64url_encode (serialize \<lparr>original = claims, issued_at = now, expiry = now + ttl\<rparr>),
      base64url_encode (hmac secret
         (base64url_encode jwt_header @ ''.'' @
          base64url_encode
            (serialize \<lparr>original = claims, issued_at = now, expiry = now + ttl\<rparr>)))]"
  using split_three[of "CHR ''.''" "base64url_encode jwt_header"
      "base64url_encode (serialize \<lparr>original = claims, issued_at = now, expiry = now + ttl\<rparr>)"
      "base64url_encode (hmac secret
         (base64url_encode jwt_header @ ''.'' @
          base64url_encode
            (serialize \<lparr>original = claims, issued_at = now, expiry = now + ttl\<rparr>)))"]
  by (simp add: TokenIssue_def Let_def base64url_no_dot)

lemma TokenVerify_issued:
  assumes "parse (serialize \<lparr>original = claims, issued_at = t0, expiry = t0 + ttl\<rparr>) =
             Some \<lparr>original = claims, issued_at = t0, expiry = t0 + ttl\<rparr>"
  shows "TokenVerify parse hmac t (TokenIssue serialize hmac t0 claims secret ttl) secret =
           (if t \<ge> t0 + ttl then Inl Expired
            else Inr \<lparr>original = claims, issued_at = t0, expiry = t0 + ttl\<rparr>)"
  using assms
  by (simp add: TokenVerify_def TokenIssue_segments base64url_roundtrip)

text \<open>
  Claim C5: for every claims object, secret and ttl, the token issued at time \<open>t0\<close>
  verifies under the same secret at every time \<open>t\<close> at which less than ttl has elapsed
  since \<open>t0\<close>, and the result is the original claims with the issued-at and expiry
  timestamps added and nothing else. The JSON text of these claims is assumed to parse
  back to them.
\<close>

theorem token_roundtrip:
  assumes "parse (serialize \<lparr>original = claims, issued_at = t0, expiry = t0 + ttl\<rparr>) =
             Some \<lparr>original = claims, issued_at = t0, expiry = t0 + ttl\<rparr>"
      and "t - t0 < ttl"
  shows "TokenVerify parse hmac t (TokenIssue serialize hmac t0 claims secret ttl) secret =
           Inr \<lparr>original = claims, issued_at = t0, expiry = t0 + ttl\<rparr>"
  using TokenVerify_issued[of parse serialize claims t0 ttl hmac t secret] assms by simp

text \<open>The theorem at the claims 2, issued at time 3 for 5 seconds and verified at time 7.\<close>

theorem token_roundtrip_witness:
  "TokenVerify unary_parse sample_hmac 7
     (TokenIssue unary_serialize sample_hmac 3 2 ''k'' 5) ''k'' =
     Inr \<lparr>original = 2, issued_at = 3, expiry = 3 + 5\<rparr>"
  using token_roundtrip [of unary_parse unary_serialize 2 3 5 7 sample_hmac "''k''"]
  by (simp add: unary_parse_def unary_serialize_def eval_nat_numeral)

text \<open>
  Claim C6: for every issued token, verification at the time equal to the embedded expiry
  fails with \<open>Expired\<close>, and verification one unit of time before the expiry succeeds:
  the boundary is inclusive. The JSON text of the claims is assumed to parse back to them.
\<close>

theorem token_expiry_boundary:
  assumes "parse (serialize \<lparr>original = claims, issued_at = t0, expiry = t0 + ttl\<rparr>) =
             Some \<lparr>original = claims, issued_at = t0, expiry = t0 + ttl\<rparr>"
  shows "TokenVerify parse hmac (t0 + ttl)
           (TokenIssue serialize hmac t0 claims secret ttl) secret = Inl Expired \<and>
         TokenVerify parse hmac (t0 + ttl - 1)
           (TokenIssue serialize hmac t0 claims secret ttl) secret =
           Inr \<lparr>original = claims, issued_at = t0, expiry = t0 + ttl\<rparr>"
  using TokenVerify_issued[of parse serialize claims t0 ttl hmac "t0 + ttl" secret]
    TokenVerify_issued[of parse serialize claims t0 ttl hmac "t0 + ttl - 1" secret] assms
  by simp

text \<open>The theorem at the same token, verified at times 8 and 7.\<close>

theorem token_expiry_boundary_witness:
  "TokenVerify unary_parse sample_hmac 8
     (TokenIssue unary_serialize sample_hmac 3 2 ''k'' 5) ''k'' = Inl Expired \<and>
   TokenVerify unary_parse sample_hmac 7
     (TokenIssue unary_serialize sample_hmac 3 2 ''k'' 5) ''k'' =
     Inr \<lparr>original = 2, issued_at = 3, expiry = 8\<rparr>"
  using token_expiry_boundary [of unary_parse unary_serialize 2 3 5 sample_hmac "''k''"]
  by (simp add: unary_parse_def unary_serialize_def eval_nat_numeral)

end
